theory Spec2Isabelle
  imports Complex_Main
begin

section \<open>JavaScript values\<close>

text \<open>
  The monitor (\<^verbatim>\<open>index.js\<close>, class \<^verbatim>\<open>Monitor\<close>) reads JSONL files; every line is
  handed to \<^verbatim>\<open>JSON.parse\<close> and the resulting value is inspected field by field. A value
  is modelled as \<open>jsval\<close>. A string is a list of code units (restricted to the range of
  \<open>char\<close>), a number is a rational (only its truthiness and its type are ever inspected).
  Arrays and objects carry the reference of their allocation: JavaScript compares them by
  identity, and the \<^verbatim>\<open>Set\<close> of processed ids does so too. The fields of an object are
  an association list, first binding first (\<^verbatim>\<open>JSON.parse\<close> leaves one binding per key).
\<close>

datatype jsval =
    VUndefined
  | VNull
  | VBool bool
  | VNum rat
  | VStr string
  | VArr nat "jsval list"
  | VObj nat "(string \<times> jsval) list"

datatype js_error = TypeError string | Error string

text \<open>How a call ends: it returns, or it throws. The state reached is kept in both cases.\<close>

datatype completion = Returned | Thrown js_error

text \<open>\<^verbatim>\<open>ToBoolean\<close>: what \<^verbatim>\<open>!v\<close>, \<^verbatim>\<open>v || d\<close> and \<^verbatim>\<open>v && w\<close> test.\<close>

fun truthy :: "jsval \<Rightarrow> bool" where
  "truthy VUndefined = False"
| "truthy VNull = False"
| "truthy (VBool b) = b"
| "truthy (VNum r) = (r \<noteq> 0)"
| "truthy (VStr s) = (s \<noteq> [])"
| "truthy (VArr r xs) = True"
| "truthy (VObj r fs) = True"

definition falsy :: "jsval \<Rightarrow> bool" where
  "falsy v = (\<not> truthy v)"

text \<open>\<^verbatim>\<open>typeof v === 'object'\<close> and \<^verbatim>\<open>typeof v === 'string'\<close>.\<close>

fun typeof_object :: "jsval \<Rightarrow> bool" where
  "typeof_object VNull = True"
| "typeof_object (VArr r xs) = True"
| "typeof_object (VObj r fs) = True"
| "typeof_object v = False"

fun typeof_string :: "jsval \<Rightarrow> bool" where
  "typeof_string (VStr s) = True"
| "typeof_string v = False"

text \<open>
  Property access \<^verbatim>\<open>v.k\<close> for the keys the monitor reads (\<^verbatim>\<open>type\<close>, \<^verbatim>\<open>uuid\<close>,
  \<^verbatim>\<open>message\<close>, \<^verbatim>\<open>text\<close>, \<^verbatim>\<open>timestamp\<close>, \<^verbatim>\<open>gitBranch\<close>, \<^verbatim>\<open>cwd\<close>, \<^verbatim>\<open>parentUuid\<close>,
  \<^verbatim>\<open>requestId\<close>): none of them is a property of a prototype, so the access yields the
  object's own binding or \<^verbatim>\<open>undefined\<close>. On \<^verbatim>\<open>null\<close> and \<^verbatim>\<open>undefined\<close> it throws.
\<close>

fun getProp :: "jsval \<Rightarrow> string \<Rightarrow> js_error + jsval" where
  "getProp VUndefined k =
     Inl (TypeError (''Cannot read properties of undefined (reading '' @ [CHR 0x27] @ k @ [CHR 0x27] @ '')''))"
| "getProp VNull k =
     Inl (TypeError (''Cannot read properties of null (reading '' @ [CHR 0x27] @ k @ [CHR 0x27] @ '')''))"
| "getProp (VObj r fs) k = Inr (case map_of fs k of Some v \<Rightarrow> v | None \<Rightarrow> VUndefined)"
| "getProp v k = Inr VUndefined"

text \<open>The same access where the receiver is already known to be neither null nor undefined.\<close>

fun propOf :: "jsval \<Rightarrow> string \<Rightarrow> jsval" where
  "propOf (VObj r fs) k = (case map_of fs k of Some v \<Rightarrow> v | None \<Rightarrow> VUndefined)"
| "propOf v k = VUndefined"

text \<open>
  \<^verbatim>\<open>SameValueZero\<close>, the equality of \<^verbatim>\<open>Set.prototype.has\<close>: primitives by value, arrays
  and objects by reference.
\<close>

fun sameValueZero :: "jsval \<Rightarrow> jsval \<Rightarrow> bool" where
  "sameValueZero (VArr r xs) w = (case w of VArr r' ys \<Rightarrow> r = r' | _ \<Rightarrow> False)"
| "sameValueZero (VObj r fs) w = (case w of VObj r' gs \<Rightarrow> r = r' | _ \<Rightarrow> False)"
| "sameValueZero v w = (v = w)"

text \<open>A \<^verbatim>\<open>Set\<close> in insertion order: \<^verbatim>\<open>has\<close>, \<^verbatim>\<open>add\<close> and \<^verbatim>\<open>size\<close>.\<close>

definition Set_has :: "jsval list \<Rightarrow> jsval \<Rightarrow> bool" where
  "Set_has s v = list_ex (sameValueZero v) s"

definition Set_add :: "jsval list \<Rightarrow> jsval \<Rightarrow> jsval list" where
  "Set_add s v = (if Set_has s v then s else s @ [v])"

definition Set_size :: "jsval list \<Rightarrow> nat" where
  "Set_size s = length s"

text \<open>
  \<^verbatim>\<open>new Date(v)\<close> converts an array or object argument to a primitive first. For a value
  that \<^verbatim>\<open>JSON.parse\<close> built, the conversion throws exactly when an object on the way owns
  a (necessarily non-callable) \<^verbatim>\<open>toString\<close> binding; an array is joined element by
  element, \<^verbatim>\<open>null\<close> elements giving the empty string.
\<close>

fun toPrimitive_throws :: "jsval \<Rightarrow> bool" where
  "toPrimitive_throws (VObj r fs) = (map_of fs ''toString'' \<noteq> None)"
| "toPrimitive_throws (VArr r xs) = list_ex toPrimitive_throws xs"
| "toPrimitive_throws v = False"

text \<open>A \<^verbatim>\<open>Date\<close> object, kept as the argument it was constructed from.\<close>

datatype jsdate = Date jsval

section \<open>Strings and paths\<close>

text \<open>\<^verbatim>\<open>s.split(c)\<close> for a one-character separator: never empty, \<^verbatim>\<open>''.split(c)\<close> is \<^verbatim>\<open>['']\<close>.\<close>

fun split :: "char \<Rightarrow> string \<Rightarrow> string list" where
  "split c [] = [[]]"
| "split c (x # xs) =
     (if x = c then [] # split c xs
      else (case split c xs of [] \<Rightarrow> [[x]] | w # ws \<Rightarrow> (x # w) # ws))"

text \<open>\<^verbatim>\<open>a.pop()\<close> read for its value; on an empty array it is \<^verbatim>\<open>undefined\<close>, which the
  template literal of the preview line prints as that word.\<close>

fun pop :: "string list \<Rightarrow> string" where
  "pop [] = ''undefined''"
| "pop [x] = x"
| "pop (x # y # ys) = pop (y # ys)"

text \<open>\<^verbatim>\<open>a.indexOf(x)\<close>: the first index, or \<open>-1\<close>.\<close>

fun indexOf :: "string list \<Rightarrow> string \<Rightarrow> int" where
  "indexOf [] x = -1"
| "indexOf (y # ys) x = (if y = x then 0 else (let i = indexOf ys x in if i = -1 then -1 else i + 1))"

text \<open>\<^verbatim>\<open>s.replace(/a/g, b)\<close> for single characters.\<close>

definition replace_all :: "char \<Rightarrow> char \<Rightarrow> string \<Rightarrow> string" where
  "replace_all a b s = map (\<lambda>c. if c = a then b else c) s"

text \<open>\<^verbatim>\<open>s.substring(0, n)\<close>.\<close>

definition substring0 :: "nat \<Rightarrow> string \<Rightarrow> string" where
  "substring0 n s = take n s"

text \<open>The white space \<^verbatim>\<open>trim\<close> removes, within the range of \<open>char\<close>; a line is kept by
  \<^verbatim>\<open>filter(line => line.trim())\<close> when something else is left.\<close>

definition is_space :: "char \<Rightarrow> bool" where
  "is_space c = (c \<in> set [CHR 0x09, CHR 0x0A, CHR 0x0B, CHR 0x0C, CHR 0x0D, CHR 0x20, CHR 0xA0])"

definition trim_nonempty :: "string \<Rightarrow> bool" where
  "trim_nonempty s = list_ex (\<lambda>c. \<not> is_space c) s"

text \<open>
  Node's \<^verbatim>\<open>path.basename(p, ext)\<close> on POSIX: the last segment of \<open>p\<close>, trailing
  slashes ignored, without \<open>ext\<close> when the segment ends with it and is longer than it.
\<close>

definition strip_trailing_slashes :: "string \<Rightarrow> string" where
  "strip_trailing_slashes p = rev (dropWhile (\<lambda>c. c = CHR ''/'') (rev p))"

definition ends_with :: "string \<Rightarrow> string \<Rightarrow> bool" where
  "ends_with s suffix = (length suffix \<le> length s \<and> drop (length s - length suffix) s = suffix)"

definition basename :: "string \<Rightarrow> string \<Rightarrow> string" where
  "basename p ext =
     (if ext \<noteq> [] \<and> ext = p then []
      else let b = pop (split (CHR ''/'') (strip_trailing_slashes p)) in
        if ext \<noteq> [] \<and> ends_with b ext \<and> length ext < length b
        then take (length b - length ext) b else b)"

section \<open>The monitor's data\<close>

text \<open>
  The argument of the constructor, as the command line builds it
  (\<^verbatim>\<open>bin/claude-langfuse.js\<close>: \<^verbatim>\<open>historyHours: parseInt(options.history)\<close>,
  \<^verbatim>\<open>daemon\<close>, \<^verbatim>\<open>quiet\<close>; the \<^verbatim>\<open>status\<close> command passes \<^verbatim>\<open>dryRun\<close>). A key may be
  absent (\<open>None\<close>); \<^verbatim>\<open>parseInt\<close> yields a number or \<^verbatim>\<open>NaN\<close>.
\<close>

datatype jsnumber = NaN | Num rat

record constructor_options =
  opt_historyHours :: "jsnumber option"
  opt_daemon :: "bool option"
  opt_dryRun :: "bool option"
  opt_quiet :: "bool option"

text \<open>\<^verbatim>\<open>this.options\<close>: the three keys the constructor stores.\<close>

record options =
  historyHours :: rat
  daemon :: bool
  dryRun :: bool

text \<open>The result of \<^verbatim>\<open>loadConfig()\<close>; only \<^verbatim>\<open>host\<close> is printed, the keys go to the sink.\<close>

record config =
  host :: string
  publicKey :: string
  secretKey :: string

text \<open>The records handed to the sink: the arguments of \<^verbatim>\<open>langfuse.trace\<close> and
  \<^verbatim>\<open>langfuse.generation\<close>.\<close>

record trace_metadata =
  t_project :: string
  t_conversationId :: string
  t_gitBranch :: jsval
  t_cwd :: jsval
  t_messageType :: jsval
  t_source :: string

record trace_data =
  t_id :: jsval
  t_name :: string
  t_sessionId :: string
  t_userId :: string
  t_metadata :: trace_metadata
  t_input :: string
  t_timestamp :: jsdate

record generation_metadata =
  g_project :: string
  g_conversationId :: string
  g_requestId :: jsval
  g_messageType :: jsval
  g_source :: string

record generation_data =
  g_id :: jsval
  g_traceId :: jsval
  g_name :: string
  g_model :: string
  g_metadata :: generation_metadata
  g_output :: string
  g_startTime :: jsdate
  g_endTime :: jsdate

datatype sink_call = Trace trace_data | Generation generation_data | FlushAsync

text \<open>
  The Langfuse client (an external collaborator): the calls made on it, in order, and
  those it accepted. Whether it throws on a call is the environment's
  (\<open>sink_rejects\<close> below, given every earlier call).
\<close>

record langfuse =
  attempts :: "sink_call list"
  accepted :: "sink_call list"

text \<open>What is printed: the lines of \<^verbatim>\<open>console.log\<close> and \<^verbatim>\<open>console.error\<close>, without the
  colours. \<open>LogPreview\<close> is the line \<^verbatim>\<open>`${icon} [${projectName}] ${preview}...`\<close>.\<close>

datatype icon = UserIcon | RobotIcon

datatype console_line =
    LogPreview icon string string
  | ErrCreatingTrace string
  | ErrProcessing string string
  | LogProjectsDir string
  | LogProcessingLast rat
  | LogFound nat
  | LogProcessed nat
  | LogWatching
  | LogLangfuseUI string
  | LogPressCtrlC

text \<open>
  The state the methods change: the fields of the \<^verbatim>\<open>Monitor\<close> object
  (\<^verbatim>\<open>options\<close>, \<^verbatim>\<open>processedMessages\<close>, \<^verbatim>\<open>conversationSessions\<close>, \<^verbatim>\<open>config\<close>,
  \<^verbatim>\<open>langfuse\<close>), the console, and the number of \<^verbatim>\<open>JSON.parse\<close> calls made so far
  (which tells the allocations of one call from those of another).
\<close>

record monitor =
  options :: options
  processedMessages :: "jsval list"
  conversationSessions :: "string \<rightharpoonup> string"
  config :: config
  langfuse :: "langfuse option"
  console :: "console_line list"
  parses :: nat

text \<open>
  A directory tree as \<^verbatim>\<open>readdirSync\<close> and \<^verbatim>\<open>statSync\<close> show it: a file with its name
  and modification time, a directory with its name and entries; \<open>None\<close> where the call
  throws.
\<close>

datatype dirent = FileEnt string "rat option" | DirEnt string "dirent list option"

text \<open>
  What the monitor takes from outside: Node's MD5 (\<^verbatim>\<open>crypto.createHash('md5')\<close>, hex
  digest of the UTF-8 encoding), \<^verbatim>\<open>JSON.parse\<close> (\<open>None\<close>: a syntax error; the first
  argument numbers the call), the file system (\<open>projects_path\<close> is
  \<^verbatim>\<open>path.join(os.homedir(), '.claude', 'projects')\<close> and \<open>projects_tree\<close> what
  \<^verbatim>\<open>readdirSync\<close> and \<^verbatim>\<open>statSync\<close> find below it), the clock and the sink's behaviour.
\<close>

record env =
  md5hex :: "string \<Rightarrow> string"
  JSON_parse :: "nat \<Rightarrow> string \<Rightarrow> jsval option"
  readFileSync :: "string \<Rightarrow> js_error + string"
  existsSync :: "string \<Rightarrow> bool"
  projects_path :: string
  projects_tree :: "dirent list option"
  Date_now :: rat
  sink_rejects :: "sink_call list \<Rightarrow> sink_call \<Rightarrow> string option"

section \<open>The constructor\<close>

text \<open>
  \<^verbatim>\<open>historyHours: options.historyHours || 24\<close>, \<^verbatim>\<open>daemon: options.daemon || false\<close>,
  \<^verbatim>\<open>dryRun: options.dryRun || false\<close>: an absent key, \<^verbatim>\<open>NaN\<close> and \<open>0\<close> are falsy and
  give the default. The client is created unless \<^verbatim>\<open>dryRun\<close> is set. The key
  \<^verbatim>\<open>quiet\<close> is not read.
\<close>

definition or_default :: "bool option \<Rightarrow> bool" where
  "or_default b = (case b of Some True \<Rightarrow> True | _ \<Rightarrow> False)"

definition Monitor :: "config \<Rightarrow> constructor_options \<Rightarrow> monitor" where
  "Monitor cfg opts =
     (let os = \<lparr> historyHours =
                   (case opt_historyHours opts of
                      Some (Num h) \<Rightarrow> if h = 0 then 24 else h
                    | _ \<Rightarrow> 24),
                 daemon = or_default (opt_daemon opts),
                 dryRun = or_default (opt_dryRun opts) \<rparr>
      in \<lparr> options = os,
           processedMessages = [],
           conversationSessions = Map.empty,
           config = cfg,
           langfuse = (if \<not> dryRun os then Some \<lparr> attempts = [], accepted = [] \<rparr> else None),
           console = [],
           parses = 0 \<rparr>)"

section \<open>processMessage\<close>

text \<open>Lines 211-217: the text of an entry.\<close>

definition extractText :: "jsval \<Rightarrow> jsval" where
  "extractText entry =
     (let message = propOf entry ''message'' in
      if truthy message \<and> typeof_object message
      then (let t = propOf message ''text'' in if truthy t then t else VStr [])
      else if typeof_string message then message
      else VStr [])"

text \<open>The method of the client a call names.\<close>

fun method_name :: "sink_call \<Rightarrow> string" where
  "method_name (Trace d) = ''trace''"
| "method_name (Generation d) = ''generation''"
| "method_name FlushAsync = ''flushAsync''"

text \<open>A call on the client: on \<^verbatim>\<open>undefined\<close> (no client) reading the method is a
  \<^verbatim>\<open>TypeError\<close>; otherwise the client takes the call or throws an error with a message.\<close>

definition sink_invoke :: "env \<Rightarrow> langfuse option \<Rightarrow> sink_call \<Rightarrow> string option \<times> langfuse option" where
  "sink_invoke e l call =
     (case l of
        None \<Rightarrow>
          (Some (''Cannot read properties of undefined (reading '' @ [CHR 0x27] @ method_name call
                 @ [CHR 0x27] @ '')''), None)
      | Some c \<Rightarrow>
          (case sink_rejects e (attempts c) call of
             Some msg \<Rightarrow> (Some msg, Some (c\<lparr>attempts := attempts c @ [call]\<rparr>))
           | None \<Rightarrow> (None, Some (c\<lparr>attempts := attempts c @ [call],
                                     accepted := accepted c @ [call]\<rparr>))))"

text \<open>Lines 232-277: the \<^verbatim>\<open>try\<close> block that creates the trace or the generation and
  flushes when the size of the set is a multiple of ten; the \<^verbatim>\<open>catch\<close> prints.\<close>

definition forward ::
  "env \<Rightarrow> monitor \<Rightarrow> jsval \<Rightarrow> jsval \<Rightarrow> jsval \<Rightarrow> string \<Rightarrow> jsdate \<Rightarrow> string \<Rightarrow> string \<Rightarrow> string \<Rightarrow> monitor" where
  "forward e m entry msgType uuid txt timestamp sessionId projectPath conversationId =
     (let (err, l) =
        (if msgType = VStr ''user'' then
           sink_invoke e (langfuse m) (Trace
             \<lparr> t_id = uuid,
               t_name = ''claude_code_user'',
               t_sessionId = sessionId,
               t_userId = ''michael@oboyle.co'',
               t_metadata =
                 \<lparr> t_project = projectPath,
                   t_conversationId = conversationId,
                   t_gitBranch = propOf entry ''gitBranch'',
                   t_cwd = propOf entry ''cwd'',
                   t_messageType = msgType,
                   t_source = ''claude_code_automatic'' \<rparr>,
               t_input = txt,
               t_timestamp = timestamp \<rparr>)
         else if msgType = VStr ''assistant'' then
           sink_invoke e (langfuse m) (Generation
             \<lparr> g_id = uuid,
               g_traceId = propOf entry ''parentUuid'',
               g_name = ''claude_response'',
               g_model = ''claude-sonnet-4-5-20250929'',
               g_metadata =
                 \<lparr> g_project = projectPath,
                   g_conversationId = conversationId,
                   g_requestId = propOf entry ''requestId'',
                   g_messageType = msgType,
                   g_source = ''claude_code_automatic'' \<rparr>,
               g_output = txt,
               g_startTime = timestamp,
               g_endTime = timestamp \<rparr>)
         else (None, langfuse m))
      in case err of
           Some msg \<Rightarrow> m\<lparr>langfuse := l, console := console m @ [ErrCreatingTrace msg]\<rparr>
         | None \<Rightarrow>
             if Set_size (processedMessages m) mod 10 = 0 then
               (case sink_invoke e l FlushAsync of
                  (Some msg, l') \<Rightarrow> m\<lparr>langfuse := l', console := console m @ [ErrCreatingTrace msg]\<rparr>
                | (None, l') \<Rightarrow> m\<lparr>langfuse := l'\<rparr>)
             else m\<lparr>langfuse := l\<rparr>)"

text \<open>Line 219: the argument of \<^verbatim>\<open>new Date\<close>, \<^verbatim>\<open>entry.timestamp || Date.now()\<close>.\<close>

definition timestampArg :: "env \<Rightarrow> jsval \<Rightarrow> jsval" where
  "timestampArg e entry =
     (let t = propOf entry ''timestamp'' in if truthy t then t else VNum (Date_now e))"

text \<open>Lines 211-230, after the id has been recorded: text, timestamp, preview line, and the
  return in dry-run mode. \<^verbatim>\<open>text.substring\<close> exists on strings only.\<close>

definition echo_and_forward ::
  "env \<Rightarrow> monitor \<Rightarrow> jsval \<Rightarrow> jsval \<Rightarrow> jsval \<Rightarrow> string \<Rightarrow> string \<Rightarrow> string \<Rightarrow> completion \<times> monitor" where
  "echo_and_forward e m entry msgType uuid sessionId projectPath conversationId =
     (let txt = extractText entry;
          arg = timestampArg e entry
      in if toPrimitive_throws arg
         then (Thrown (TypeError ''Cannot convert object to primitive value''), m)
         else
           let timestamp = Date arg;
               projectName = pop (split (CHR ''/'') projectPath)
           in case txt of
                VStr s \<Rightarrow>
                  let preview = replace_all (CHR 0x0A) (CHR '' '') (substring0 60 s);
                      icon = (if msgType = VStr ''user'' then UserIcon else RobotIcon);
                      m' = m\<lparr>console := console m @ [LogPreview icon projectName preview]\<rparr>
                  in if dryRun (options m') then (Returned, m')
                     else (Returned,
                           forward e m' entry msgType uuid s timestamp sessionId projectPath conversationId)
              | _ \<Rightarrow> (Thrown (TypeError ''text.substring is not a function''), m))"

text \<open>Lines 196-209: the kind, the id, the set; then the rest on the state that holds the id.\<close>

definition processMessage ::
  "env \<Rightarrow> monitor \<Rightarrow> jsval \<Rightarrow> string \<Rightarrow> string \<Rightarrow> string \<Rightarrow> completion \<times> monitor" where
  "processMessage e m entry sessionId projectPath conversationId =
     (case getProp entry ''type'' of
        Inl err \<Rightarrow> (Thrown err, m)
      | Inr msgType \<Rightarrow>
          if msgType \<noteq> VStr ''user'' \<and> msgType \<noteq> VStr ''assistant'' then (Returned, m)
          else
            let uuid = propOf entry ''uuid'' in
            if falsy uuid \<or> Set_has (processedMessages m) uuid then (Returned, m)
            else
              echo_and_forward e (m\<lparr>processedMessages := Set_add (processedMessages m) uuid\<rparr>)
                entry msgType uuid sessionId projectPath conversationId)"

section \<open>processConversationFile\<close>

text \<open>\<^verbatim>\<open>error.message\<close>.\<close>

fun message :: "js_error \<Rightarrow> string" where
  "message (TypeError s) = s"
| "message (Error s) = s"

text \<open>Lines 182-189: every line is parsed and handed on; whatever \<^verbatim>\<open>JSON.parse\<close> or
  \<^verbatim>\<open>processMessage\<close> throws is swallowed by the empty \<^verbatim>\<open>catch\<close>, the state stays as the
  throwing call left it.\<close>

fun processLines ::
  "env \<Rightarrow> monitor \<Rightarrow> string list \<Rightarrow> string \<Rightarrow> string \<Rightarrow> string \<Rightarrow> monitor" where
  "processLines e m [] sessionId projectPath conversationId = m"
| "processLines e m (line # ls) sessionId projectPath conversationId =
     (case JSON_parse e (parses m) line of
        None \<Rightarrow> processLines e (m\<lparr>parses := Suc (parses m)\<rparr>) ls sessionId projectPath conversationId
      | Some entry \<Rightarrow>
          processLines e
            (snd (processMessage e (m\<lparr>parses := Suc (parses m)\<rparr>) entry
                    sessionId projectPath conversationId))
            ls sessionId projectPath conversationId)"

text \<open>Lines 169-176: the session id of a file, computed once and kept by file path.\<close>

definition resolveSession :: "env \<Rightarrow> monitor \<Rightarrow> string \<Rightarrow> string \<Rightarrow> string \<Rightarrow> string \<times> monitor" where
  "resolveSession e m filepath projectPath conversationId =
     (case conversationSessions m filepath of
        Some sessionId \<Rightarrow> (sessionId, m)
      | None \<Rightarrow>
          let sessionData = projectPath @ '':'' @ conversationId;
              sessionId = md5hex e sessionData
          in (sessionId, m\<lparr>conversationSessions := (conversationSessions m)(filepath \<mapsto> sessionId)\<rparr>))"

text \<open>Lines 155-194. \<^verbatim>\<open>path.sep\<close> is \<^verbatim>\<open>/\<close>. The index \<open>projectsIdx + 1\<close> is in range
  where it is read, by the test before it.\<close>

definition processConversationFile :: "env \<Rightarrow> monitor \<Rightarrow> string \<Rightarrow> monitor" where
  "processConversationFile e m filepath =
     (let pathParts = split (CHR ''/'') filepath;
          projectsIdx = indexOf pathParts ''projects''
      in if projectsIdx = -1 \<or> projectsIdx \<ge> int (length pathParts) - 2 then m
         else
           let encodedProject = pathParts ! nat (projectsIdx + 1);
               projectPath = replace_all (CHR ''-'') (CHR ''/'') encodedProject;
               conversationId = basename filepath ''.jsonl'';
               (sessionId, m') = resolveSession e m filepath projectPath conversationId
           in case readFileSync e filepath of
                Inl err \<Rightarrow> m'\<lparr>console := console m' @ [ErrProcessing filepath (message err)]\<rparr>
              | Inr content \<Rightarrow>
                  processLines e m' (filter trim_nonempty (split (CHR 0x0A) content))
                    sessionId projectPath conversationId)"

section \<open>Startup\<close>

text \<open>Lines 59-67.\<close>

definition getClaudeProjectsDir :: "env \<Rightarrow> js_error + string" where
  "getClaudeProjectsDir e =
     (if \<not> existsSync e (projects_path e)
      then Inl (Error (''Claude projects directory not found: '' @ projects_path e))
      else Inr (projects_path e))"

text \<open>Lines 125-143: the files below a directory that end in \<^verbatim>\<open>.jsonl\<close> and were modified
  at or after the cutoff, in the order of the listing; a listing or a \<^verbatim>\<open>statSync\<close> that
  throws ends the scan.\<close>

fun findConversations :: "rat \<Rightarrow> string \<Rightarrow> dirent list option \<Rightarrow> js_error + string list"
  and scanEntries :: "rat \<Rightarrow> string \<Rightarrow> dirent list \<Rightarrow> js_error + string list" where
  "findConversations cutoffTime dir None = Inl (Error (''readdirSync: '' @ dir))"
| "findConversations cutoffTime dir (Some entries) = scanEntries cutoffTime dir entries"
| "scanEntries cutoffTime dir [] = Inr []"
| "scanEntries cutoffTime dir (DirEnt name sub # es) =
     (case findConversations cutoffTime (dir @ ''/'' @ name) sub of
        Inl err \<Rightarrow> Inl err
      | Inr found \<Rightarrow>
          (case scanEntries cutoffTime dir es of
             Inl err \<Rightarrow> Inl err
           | Inr results \<Rightarrow> Inr (found @ results)))"
| "scanEntries cutoffTime dir (FileEnt name mtimeMs # es) =
     (if ends_with name ''.jsonl'' then
        (case mtimeMs of
           None \<Rightarrow> Inl (Error (''statSync: '' @ dir @ ''/'' @ name))
         | Some t \<Rightarrow>
             (case scanEntries cutoffTime dir es of
                Inl err \<Rightarrow> Inl err
              | Inr results \<Rightarrow>
                  Inr ((if t \<ge> cutoffTime then [dir @ ''/'' @ name] else []) @ results)))
      else scanEntries cutoffTime dir es)"

text \<open>Lines 119-153.\<close>

definition processExistingHistory :: "env \<Rightarrow> monitor \<Rightarrow> completion \<times> monitor" where
  "processExistingHistory e m =
     (let m1 = m\<lparr>console := console m @ [LogProcessingLast (historyHours (options m))]\<rparr> in
      case getClaudeProjectsDir e of
        Inl err \<Rightarrow> (Thrown err, m1)
      | Inr projectsDir \<Rightarrow>
          let cutoffTime = Date_now e - historyHours (options m1) * 3600 * 1000 in
          case findConversations cutoffTime projectsDir (projects_tree e) of
            Inl err \<Rightarrow> (Thrown err, m1)
          | Inr conversations \<Rightarrow>
              let m2 = m1\<lparr>console := console m1 @ [LogFound (length conversations)]\<rparr>;
                  m3 = foldl (processConversationFile e) m2 conversations
              in (Returned, m3\<lparr>console := console m3 @ [LogProcessed (length conversations)]\<rparr>))"

text \<open>Lines 69-92, up to the creation of the watcher: the state in which watching begins.\<close>

definition start :: "env \<Rightarrow> monitor \<Rightarrow> completion \<times> monitor" where
  "start e m =
     (case getClaudeProjectsDir e of
        Inl err \<Rightarrow> (Thrown err, m)
      | Inr projectsDir \<Rightarrow>
          let m1 = m\<lparr>console := console m @ [LogProjectsDir projectsDir]\<rparr>;
              (c, m2) = (if historyHours (options m1) > 0 then processExistingHistory e m1
                         else (Returned, m1))
          in case c of
               Thrown err \<Rightarrow> (Thrown err, m2)
             | Returned \<Rightarrow>
                 (Returned,
                  m2\<lparr>console := console m2 @ [LogWatching, LogLangfuseUI (host (config m2)), LogPressCtrlC]\<rparr>))"

text \<open>Lines 94-100: every \<^verbatim>\<open>add\<close> and \<^verbatim>\<open>change\<close> event of the watcher processes its file.\<close>

definition watch :: "env \<Rightarrow> monitor \<Rightarrow> string list \<Rightarrow> monitor" where
  "watch e m events = foldl (processConversationFile e) m events"

section \<open>Example inputs\<close>

text \<open>
  A file \<^verbatim>\<open>/home/u/.claude/projects/a-b-c/conv1.jsonl\<close> of one line, a user message with
  id \<^verbatim>\<open>m1\<close> and text \<^verbatim>\<open>hi\<close>, written an hour before the monitor starts; a sink that
  accepts every call, and one that rejects every call. The digests of \<^verbatim>\<open>a/b/c:conv1\<close> and
  \<^verbatim>\<open>u:conv1\<close> are the MD5 digests of these strings; every other digest is left symbolic.
\<close>

definition line_m1 :: string where
  \<open>line_m1 = ''{"type":"user","uuid":"m1","message":{"text":"hi"},"timestamp":"2025-01-01T00:00:00.000Z"}''\<close>

definition entry_m1 :: "nat \<Rightarrow> jsval" where
  "entry_m1 n =
     VObj (2 * n)
       [(''type'', VStr ''user''), (''uuid'', VStr ''m1''),
        (''message'', VObj (2 * n + 1) [(''text'', VStr ''hi'')]),
        (''timestamp'', VStr ''2025-01-01T00:00:00.000Z'')]"

definition example_path :: string where
  "example_path = ''/home/u/.claude/projects/a-b-c/conv1.jsonl''"

definition example_env :: env where
  "example_env =
     \<lparr> md5hex = (\<lambda>s. if s = ''a/b/c:conv1'' then ''42c2e411897e8fdc15fb31c82131beb4''
                     else if s = ''u:conv1'' then ''b8d9850e8e99ca47a64d4bead8e6d0bc''
                     else ''md5('' @ s @ '')''),
       JSON_parse = (\<lambda>n s. if s = line_m1 then Some (entry_m1 n) else None),
       readFileSync = (\<lambda>p. if p = example_path then Inr (line_m1 @ [CHR 0x0A])
                             else Inl (Error ''ENOENT: no such file or directory'')),
       existsSync = (\<lambda>p. p = ''/home/u/.claude/projects''),
       projects_path = ''/home/u/.claude/projects'',
       projects_tree = Some [DirEnt ''a-b-c'' (Some [FileEnt ''conv1.jsonl'' (Some 1735689600000)])],
       Date_now = 1735693200000,
       sink_rejects = (\<lambda>h c. None) \<rparr>"

definition rejecting_env :: env where
  "rejecting_env = example_env\<lparr>sink_rejects := (\<lambda>h c. Some ''fetch failed'')\<rparr>"

text \<open>The same file below a home directory \<^verbatim>\<open>/home/projects/u\<close>, whose path has a segment
  \<^verbatim>\<open>projects\<close> before the one of \<^verbatim>\<open>.claude/projects\<close>; and the trace the monitor hands
  the sink for it.\<close>

definition nested_path :: string where
  "nested_path = ''/home/projects/u/.claude/projects/a-b-c/conv1.jsonl''"

definition nested_env :: env where
  "nested_env =
     example_env\<lparr>readFileSync := (\<lambda>p. if p = nested_path then Inr (line_m1 @ [CHR 0x0A])
                                             else Inl (Error ''ENOENT: no such file or directory''))\<rparr>"

definition nested_trace :: trace_data where
  "nested_trace =
     \<lparr> t_id = VStr ''m1'',
       t_name = ''claude_code_user'',
       t_sessionId = ''b8d9850e8e99ca47a64d4bead8e6d0bc'',
       t_userId = ''michael@oboyle.co'',
       t_metadata =
         \<lparr> t_project = ''u'',
           t_conversationId = ''conv1'',
           t_gitBranch = VUndefined,
           t_cwd = VUndefined,
           t_messageType = VStr ''user'',
           t_source = ''claude_code_automatic'' \<rparr>,
       t_input = ''hi'',
       t_timestamp = Date (VStr ''2025-01-01T00:00:00.000Z'') \<rparr>"

definition example_config :: config where
  "example_config = \<lparr> host = ''http://localhost:3001'', publicKey = ''pk-test-123'', secretKey = ''sk-test-456'' \<rparr>"

text \<open>The constructor's argument: nothing set; \<^verbatim>\<open>{ quiet: true, dryRun: true }\<close> as in the
  repository's tests of quiet mode; \<^verbatim>\<open>{ historyHours: 0 }\<close> as \<^verbatim>\<open>start --history 0\<close>
  gives it.\<close>

definition default_options :: constructor_options where
  "default_options = \<lparr> opt_historyHours = None, opt_daemon = None, opt_dryRun = None, opt_quiet = None \<rparr>"

definition quiet_dryRun_options :: constructor_options where
  "quiet_dryRun_options = \<lparr> opt_historyHours = None, opt_daemon = None, opt_dryRun = Some True, opt_quiet = Some True \<rparr>"

definition zero_history_options :: constructor_options where
  "zero_history_options = \<lparr> opt_historyHours = Some (Num 0), opt_daemon = None, opt_dryRun = None, opt_quiet = None \<rparr>"

text \<open>Entries of the repository's tests (\<^verbatim>\<open>__tests__/monitor.test.js\<close>): a tool invocation,
  a tool result, the message of the quiet-mode test, the two messages of the counter test;
  and an entry whose text field holds a number.\<close>

definition tool_use_entry :: jsval where
  "tool_use_entry =
     VObj 0
       [(''type'', VStr ''assistant''), (''uuid'', VStr ''test-tool-use''),
        (''message'', VObj 1
           [(''content'', VArr 2
               [VObj 3 [(''type'', VStr ''tool_use''), (''name'', VStr ''Read''),
                        (''input'', VObj 4 [(''file_path'', VStr ''/test.js'')])]])]),
        (''timestamp'', VStr ''2025-01-01T00:00:00.000Z'')]"

definition tool_result_entry :: jsval where
  "tool_result_entry =
     VObj 5
       [(''type'', VStr ''user''), (''uuid'', VStr ''test-tool-result''),
        (''message'', VObj 6
           [(''content'', VArr 7
               [VObj 8 [(''type'', VStr ''tool_result''), (''tool_use_id'', VStr ''tool-123''),
                        (''content'', VStr ''File contents here'')]])]),
        (''timestamp'', VStr ''2025-01-01T00:00:00.000Z'')]"

definition quiet_test_entry :: jsval where
  "quiet_test_entry =
     VObj 0
       [(''type'', VStr ''user''), (''uuid'', VStr ''quiet-test-uuid''),
        (''message'', VStr ''Test message''),
        (''timestamp'', VStr ''2025-01-01T00:00:00.000Z'')]"

definition userEntry :: jsval where
  "userEntry =
     VObj 0
       [(''type'', VStr ''user''), (''uuid'', VStr ''user-msg''),
        (''message'', VStr ''User message''),
        (''timestamp'', VStr ''2025-01-01T00:00:00.000Z'')]"

definition assistantEntry :: jsval where
  "assistantEntry =
     VObj 1
       [(''type'', VStr ''assistant''), (''uuid'', VStr ''assistant-msg''),
        (''message'', VStr ''Assistant message''),
        (''timestamp'', VStr ''2025-01-01T00:00:00.000Z'')]"

definition numeric_text_entry :: jsval where
  "numeric_text_entry =
     VObj 0
       [(''type'', VStr ''user''), (''uuid'', VStr ''n1''),
        (''message'', VObj 1 [(''text'', VNum 42)]),
        (''timestamp'', VStr ''2025-01-01T00:00:00.000Z'')]"

definition entry_without_id :: jsval where
  "entry_without_id =
     VObj 0
       [(''type'', VStr ''user''), (''message'', VStr ''Hello''),
        (''timestamp'', VStr ''2025-01-01T00:00:00.000Z'')]"

text \<open>A parsed user-kind line with a given id, text and timestamp: the kind and the id
  under \<^verbatim>\<open>type\<close> and \<^verbatim>\<open>uuid\<close>, the text as a plain-string \<^verbatim>\<open>message\<close> or under
  \<^verbatim>\<open>text\<close> in a structured one, the timestamp a string.\<close>

definition user_entry :: "jsval \<Rightarrow> string \<Rightarrow> string \<Rightarrow> string \<Rightarrow> bool" where
  "user_entry entry uid txt T =
     (getProp entry ''type'' = Inr (VStr ''user'') \<and> propOf entry ''uuid'' = VStr uid \<and>
      (propOf entry ''message'' = VStr txt \<or>
       (\<exists>r fs. propOf entry ''message'' = VObj r fs \<and> map_of fs ''text'' = Some (VStr txt))) \<and>
      propOf entry ''timestamp'' = VStr T)"

section \<open>Basic facts\<close>

lemma split_not_Nil: "split c s \<noteq> []"
  by (induction s) (auto split: list.splits)

subsection \<open>The set of processed ids\<close>

lemma sameValueZero_refl: "sameValueZero v v"
  by (cases v) simp_all

lemma Set_has_append: "Set_has (s @ t) v = (Set_has s v \<or> Set_has t v)"
  by (simp add: Set_has_def list_ex_iff) blast

lemma Set_has_mono: "Set_has s w \<Longrightarrow> Set_has (Set_add s v) w"
  by (simp add: Set_add_def Set_has_def)

lemma forward_processedMessages:
  "processedMessages (forward e m entry msgType uuid txt ts sid pp cid) = processedMessages m"
  by (simp add: forward_def Let_def split: prod.splits option.splits)

lemma forward_conversationSessions:
  "conversationSessions (forward e m entry msgType uuid txt ts sid pp cid) = conversationSessions m"
  by (simp add: forward_def Let_def split: prod.splits option.splits)

lemma echo_and_forward_processedMessages:
  "processedMessages (snd (echo_and_forward e m entry msgType uuid sid pp cid)) = processedMessages m"
  by (simp add: echo_and_forward_def Let_def forward_processedMessages split: jsval.splits)

lemma echo_and_forward_conversationSessions:
  "conversationSessions (snd (echo_and_forward e m entry msgType uuid sid pp cid)) = conversationSessions m"
  by (simp add: echo_and_forward_def Let_def forward_conversationSessions split: jsval.splits)

lemma processMessage_dropped:
  "falsy (propOf entry ''uuid'') \<or> Set_has (processedMessages m) (propOf entry ''uuid'')
   \<Longrightarrow> snd (processMessage e m entry sid pp cid) = m"
  by (auto simp: processMessage_def Let_def split: sum.splits)

lemma processMessage_fresh:
  assumes "getProp entry ''type'' = Inr msgType"
    and "msgType = VStr ''user'' \<or> msgType = VStr ''assistant''"
    and "truthy (propOf entry ''uuid'')"
    and "\<not> Set_has (processedMessages m) (propOf entry ''uuid'')"
  shows "processMessage e m entry sid pp cid =
         echo_and_forward e (m\<lparr>processedMessages := processedMessages m @ [propOf entry ''uuid'']\<rparr>)
           entry msgType (propOf entry ''uuid'') sid pp cid"
  using assms by (auto simp: processMessage_def Let_def falsy_def Set_add_def)

lemma processMessage_marks:
  assumes "getProp entry ''type'' = Inr msgType"
    and "msgType = VStr ''user'' \<or> msgType = VStr ''assistant''"
    and "truthy (propOf entry ''uuid'')"
  shows "Set_has (processedMessages (snd (processMessage e m entry sid pp cid))) (propOf entry ''uuid'')"
proof (cases "Set_has (processedMessages m) (propOf entry ''uuid'')")
  case True
  then show ?thesis by (simp add: processMessage_dropped)
next
  case False
  then show ?thesis
    using assms
    by (simp add: processMessage_fresh echo_and_forward_processedMessages Set_has_append
        Set_has_def sameValueZero_refl)
qed

lemma processMessage_processed_mono:
  "Set_has (processedMessages m) w \<Longrightarrow>
   Set_has (processedMessages (snd (processMessage e m entry sid pp cid))) w"
  by (auto simp: processMessage_def Let_def echo_and_forward_processedMessages Set_has_mono
      split: sum.splits)

lemma processMessage_twice:
  "snd (processMessage e' (snd (processMessage e m entry sid pp cid)) entry sid' pp' cid')
   = snd (processMessage e m entry sid pp cid)"
proof (cases "getProp entry ''type''")
  case (Inl err)
  then show ?thesis by (simp add: processMessage_def)
next
  case (Inr msgType)
  show ?thesis
  proof (cases "(msgType = VStr ''user'' \<or> msgType = VStr ''assistant'') \<and> truthy (propOf entry ''uuid'')")
    case True
    then have "Set_has (processedMessages (snd (processMessage e m entry sid pp cid))) (propOf entry ''uuid'')"
      using Inr processMessage_marks by blast
    then show ?thesis by (simp add: processMessage_dropped)
  next
    case False
    then have "snd (processMessage e m entry sid pp cid) = m" for e sid pp cid
      using Inr by (auto simp: processMessage_def Let_def falsy_def)
    then show ?thesis by simp
  qed
qed

lemma sameValueZero_sym: "sameValueZero v w \<Longrightarrow> sameValueZero w v"
  by (cases v; cases w) auto

lemma sameValueZero_trans: "sameValueZero u v \<Longrightarrow> sameValueZero v w \<Longrightarrow> sameValueZero u w"
  by (cases u; cases v; cases w) auto

lemma Set_has_cong: "sameValueZero v w \<Longrightarrow> Set_has s w \<Longrightarrow> Set_has s v"
  unfolding Set_has_def list_ex_iff using sameValueZero_trans by blast

lemma processMessage_conversationSessions:
  "conversationSessions (snd (processMessage e m entry sid pp cid)) = conversationSessions m"
  by (auto simp: processMessage_def Let_def echo_and_forward_conversationSessions split: sum.splits)

lemma processLines_conversationSessions:
  "conversationSessions (processLines e m ls sid pp cid) = conversationSessions m"
  by (induction ls arbitrary: m) (auto simp: processMessage_conversationSessions split: option.splits)

lemma processLines_processed_mono:
  "Set_has (processedMessages m) w \<Longrightarrow> Set_has (processedMessages (processLines e m ls sid pp cid)) w"
proof (induction ls arbitrary: m)
  case Nil
  then show ?case by simp
next
  case (Cons l ls)
  show ?case
  proof (cases "JSON_parse e (parses m) l")
    case None
    then show ?thesis using Cons by simp
  next
    case (Some entry)
    have "Set_has (processedMessages (snd (processMessage e (m\<lparr>parses := Suc (parses m)\<rparr>) entry sid pp cid))) w"
      using Cons.prems by (intro processMessage_processed_mono) simp
    then show ?thesis using Some Cons.IH by simp
  qed
qed

lemma resolveSession_processedMessages:
  "processedMessages (snd (resolveSession e m fp pp cid)) = processedMessages m"
  by (simp add: resolveSession_def Let_def split: option.splits)

lemma resolveSession_cached:
  "conversationSessions m fp = Some s \<Longrightarrow>
   conversationSessions (snd (resolveSession e m other pp cid)) fp = Some s"
  by (auto simp: resolveSession_def Let_def split: option.splits)

lemma processConversationFile_processed_mono:
  "Set_has (processedMessages m) w \<Longrightarrow> Set_has (processedMessages (processConversationFile e m fp)) w"
  by (auto simp: processConversationFile_def Let_def processLines_processed_mono
      resolveSession_processedMessages split: prod.splits sum.splits
      dest!: arg_cong [where f = snd and x = "resolveSession _ _ _ _ _"])

lemma processConversationFile_cached:
  "conversationSessions m fp = Some s \<Longrightarrow>
   conversationSessions (processConversationFile e m other) fp = Some s"
  by (auto simp: processConversationFile_def Let_def processLines_conversationSessions
      split: prod.splits sum.splits
      dest!: arg_cong [where f = snd and x = "resolveSession _ _ _ _ _"] intro: resolveSession_cached)

lemma watch_processed_mono:
  "Set_has (processedMessages m) w \<Longrightarrow> Set_has (processedMessages (watch e m events)) w"
  unfolding watch_def
  by (induction events arbitrary: m) (simp_all add: processConversationFile_processed_mono)

subsection \<open>The path of the example\<close>

lemma split_append_sep: "split c (xs @ c # ys) = split c xs @ split c ys"
proof (induction xs)
  case Nil
  then show ?case by simp
next
  case (Cons x xs)
  then show ?case
    using split_not_Nil [of c xs] by (cases "split c xs") auto
qed

lemma indexOf_append_fresh: "x \<notin> set xs \<Longrightarrow> indexOf (xs @ x # ys) x = int (length xs)"
  by (induction xs) (auto simp: Let_def)

lemma pop_append: "ys \<noteq> [] \<Longrightarrow> pop (xs @ ys) = pop ys"
proof (induction xs)
  case Nil
  then show ?case by simp
next
  case (Cons x xs)
  then show ?case by (cases "xs @ ys") auto
qed

lemma path_parts:
  "split (CHR ''/'') (rootdir @ ''/projects/a-b-c/conv1.jsonl'')
   = split (CHR ''/'') rootdir @ [''projects'', ''a-b-c'', ''conv1.jsonl'']"
proof -
  have "rootdir @ ''/projects/a-b-c/conv1.jsonl'' = rootdir @ CHR ''/'' # ''projects/a-b-c/conv1.jsonl''"
    by simp
  then show ?thesis
    by (simp only: split_append_sep) simp
qed

lemma path_basename:
  "basename (rootdir @ ''/projects/a-b-c/conv1.jsonl'') ''.jsonl'' = ''conv1''"
proof -
  have "strip_trailing_slashes (rootdir @ ''/projects/a-b-c/conv1.jsonl'') = rootdir @ ''/projects/a-b-c/conv1.jsonl''"
    by (simp add: strip_trailing_slashes_def)
  moreover have "''.jsonl'' \<noteq> rootdir @ ''/projects/a-b-c/conv1.jsonl''"
  proof
    assume "''.jsonl'' = rootdir @ ''/projects/a-b-c/conv1.jsonl''"
    then have "length ''.jsonl'' = length (rootdir @ ''/projects/a-b-c/conv1.jsonl'')" by simp
    then show False by simp
  qed
  ultimately show ?thesis
    by (simp add: basename_def path_parts pop_append ends_with_def Let_def)
qed

lemma path_layout:
  assumes "''projects'' \<notin> set (split (CHR ''/'') rootdir)"
  shows "indexOf (split (CHR ''/'') (rootdir @ ''/projects/a-b-c/conv1.jsonl'')) ''projects''
         = int (length (split (CHR ''/'') rootdir))"
  using assms by (simp add: path_parts indexOf_append_fresh)

lemma processConversationFile_path:
  assumes "''projects'' \<notin> set (split (CHR ''/'') rootdir)"
    and "filepath = rootdir @ ''/projects/a-b-c/conv1.jsonl''"
  shows "processConversationFile e m filepath =
     (let (sessionId, m') = resolveSession e m filepath ''a/b/c'' ''conv1'' in
      case readFileSync e filepath of
        Inl err \<Rightarrow> m'\<lparr>console := console m' @ [ErrProcessing filepath (message err)]\<rparr>
      | Inr content \<Rightarrow>
          processLines e m' (filter trim_nonempty (split (CHR 0x0A) content))
            sessionId ''a/b/c'' ''conv1'')"
proof -
  let ?parts = "split (CHR ''/'') rootdir"
  have idx: "indexOf (split (CHR ''/'') filepath) ''projects'' = int (length ?parts)"
    using assms path_layout by simp
  have len: "length (split (CHR ''/'') filepath) = length ?parts + 3"
    using assms by (simp add: path_parts)
  have nth: "split (CHR ''/'') filepath ! nat (int (length ?parts) + 1) = ''a-b-c''"
    using assms by (simp add: path_parts nth_append nat_add_distrib)
  have bn: "basename filepath ''.jsonl'' = ''conv1''"
    using assms path_basename by simp
  have rp: "replace_all (CHR ''-'') (CHR ''/'') ''a-b-c'' = ''a/b/c''"
    by (simp add: replace_all_def)
  show ?thesis
    unfolding processConversationFile_def Let_def idx len nth bn rp by simp
qed

lemma processMessage_first_user:
  assumes ue: "user_entry entry uid txt T" and uid: "uid \<noteq> []"
    and fresh: "processedMessages m = []" and dry: "\<not> dryRun (options m)"
    and lf: "langfuse m = Some \<lparr> attempts = [], accepted = [] \<rparr>"
    and sink: "\<forall>h c. sink_rejects e h c = None"
  shows "\<exists>r m'. processMessage e m entry sid pp cid = (Returned, m')
           \<and> langfuse m' = Some \<lparr> attempts = [Trace r], accepted = [Trace r] \<rparr>
           \<and> processedMessages m' = [VStr uid]
           \<and> conversationSessions m' = conversationSessions m
           \<and> options m' = options m
           \<and> t_id r = VStr uid \<and> t_sessionId r = sid \<and> t_input r = txt"
  using assms
  by (auto simp: user_entry_def processMessage_def falsy_def Set_has_def Set_add_def Set_size_def
      echo_and_forward_def extractText_def timestampArg_def forward_def sink_invoke_def Let_def)

lemma processMessage_seen:
  assumes ue: "user_entry entry uid txt T"
    and seen: "processedMessages m = [VStr uid]"
  shows "processMessage e m entry sid pp cid = (Returned, m)"
  using assms
  by (simp add: user_entry_def processMessage_def falsy_def Set_has_def Let_def)

subsection \<open>The session cache\<close>

lemma processConversationFile_resolves:
  assumes "indexOf (split (CHR ''/'') filepath) ''projects'' \<noteq> -1"
    and "indexOf (split (CHR ''/'') filepath) ''projects'' < int (length (split (CHR ''/'') filepath)) - 2"
  shows "conversationSessions (processConversationFile e m filepath) filepath
         = Some (fst (resolveSession e m filepath
              (replace_all (CHR ''-'') (CHR ''/'')
                 (split (CHR ''/'') filepath ! nat (indexOf (split (CHR ''/'') filepath) ''projects'' + 1)))
              (basename filepath ''.jsonl'')))"
  using assms
  by (auto simp: processConversationFile_def Let_def processLines_conversationSessions
      resolveSession_def split: prod.splits sum.splits option.splits)

subsection \<open>Evaluation\<close>

text \<open>The definitions a run on a concrete entry unfolds.\<close>

lemmas eval_defs = processMessage_def falsy_def Set_has_def Set_add_def Set_size_def
  echo_and_forward_def timestampArg_def extractText_def forward_def sink_invoke_def Let_def
  Monitor_def or_default_def replace_all_def substring0_def

section \<open>The claims\<close>

subsection \<open>C1: one file, one user line, one trace\<close>

text \<open>
  C1, as amended. A file \<^verbatim>\<open><root>/projects/a-b-c/conv1.jsonl\<close>, where the root has no
  path segment \<^verbatim>\<open>projects\<close> of its own, whose content has exactly one non-blank line,
  which parses to a user-kind entry with id \<^verbatim>\<open>m1\<close>, text \<^verbatim>\<open>hi\<close> (a plain-string message
  or the text field of a structured one) and timestamp \<open>T\<close>: a monitor fresh from the
  constructor, not in dry-run mode and with a sink that accepts, hands the sink exactly
  one record, a trace with id \<^verbatim>\<open>m1\<close>, session id the MD5 digest of \<^verbatim>\<open>a/b/c:conv1\<close> and
  input \<^verbatim>\<open>hi\<close>; processing the same file again hands the sink nothing more.
\<close>

theorem end_to_end:
  assumes anchor: "''projects'' \<notin> set (split (CHR ''/'') rootdir)"
    and path: "filepath = rootdir @ ''/projects/a-b-c/conv1.jsonl''"
    and content: "readFileSync e filepath = Inr content"
    and one: "filter trim_nonempty (split (CHR 0x0A) content) = [line]"
    and parse: "\<forall>n. \<exists>entry. JSON_parse e n line = Some entry \<and> user_entry entry ''m1'' ''hi'' T"
    and sink: "\<forall>h c. sink_rejects e h c = None"
    and live: "opt_dryRun opts \<noteq> Some True"
  shows "(\<exists>r. langfuse (processConversationFile e (Monitor cfg opts) filepath)
               = Some \<lparr> attempts = [Trace r], accepted = [Trace r] \<rparr>
            \<and> t_id r = VStr ''m1'' \<and> t_sessionId r = md5hex e ''a/b/c:conv1'' \<and> t_input r = ''hi'')
         \<and> langfuse (processConversationFile e (processConversationFile e (Monitor cfg opts) filepath) filepath)
             = langfuse (processConversationFile e (Monitor cfg opts) filepath)"
proof -
  let ?m0 = "Monitor cfg opts"
  let ?sid = "md5hex e ''a/b/c:conv1''"
  let ?ma = "?m0\<lparr>conversationSessions := (conversationSessions ?m0)(filepath \<mapsto> ?sid)\<rparr>"
  let ?mb = "?ma\<lparr>parses := Suc (parses ?ma)\<rparr>"
  have dry: "\<not> dryRun (options ?m0)"
    using live by (cases "opt_dryRun opts") (auto simp: Monitor_def or_default_def Let_def)
  have rs: "resolveSession e ?m0 filepath ''a/b/c'' ''conv1'' = (?sid, ?ma)"
    by (simp add: resolveSession_def Monitor_def Let_def)
  obtain entry where entry: "JSON_parse e (parses ?ma) line = Some entry"
      and ue: "user_entry entry ''m1'' ''hi'' T"
    using parse by blast
  have "processedMessages ?mb = []" "\<not> dryRun (options ?mb)"
      "langfuse ?mb = Some \<lparr> attempts = [], accepted = [] \<rparr>"
    using dry by (simp_all add: Monitor_def Let_def)
  from processMessage_first_user [OF ue _ this sink, of ?sid "''a/b/c''" "''conv1''"]
  obtain r m1 where pm: "processMessage e ?mb entry ?sid ''a/b/c'' ''conv1'' = (Returned, m1)"
      and lf: "langfuse m1 = Some \<lparr> attempts = [Trace r], accepted = [Trace r] \<rparr>"
      and seen: "processedMessages m1 = [VStr ''m1'']"
      and cs: "conversationSessions m1 = conversationSessions ?mb"
      and r: "t_id r = VStr ''m1''" "t_sessionId r = ?sid" "t_input r = ''hi''"
    by auto
  have first: "processConversationFile e ?m0 filepath = m1"
    using content one entry pm
    by (simp add: processConversationFile_path [OF anchor path] rs)
  let ?mc = "m1\<lparr>parses := Suc (parses m1)\<rparr>"
  have rs2: "resolveSession e m1 filepath ''a/b/c'' ''conv1'' = (?sid, m1)"
    using cs by (simp add: resolveSession_def)
  obtain entry2 where entry2: "JSON_parse e (parses m1) line = Some entry2"
      and ue2: "user_entry entry2 ''m1'' ''hi'' T"
    using parse by blast
  have "processedMessages ?mc = [VStr ''m1'']" using seen by simp
  from processMessage_seen [OF ue2 this]
  have pm2: "processMessage e ?mc entry2 ?sid ''a/b/c'' ''conv1'' = (Returned, ?mc)" .
  have second: "processConversationFile e m1 filepath = ?mc"
    using content one entry2 pm2
    by (simp add: processConversationFile_path [OF anchor path] rs2)
  show ?thesis
    unfolding first second using lf r by simp
qed


text \<open>The theorem at the example file below \<^verbatim>\<open>/home/u/.claude\<close>.\<close>

theorem end_to_end_witness:
  "''projects'' \<notin> set (split (CHR ''/'') ''/home/u/.claude'')
   \<and> readFileSync example_env example_path = Inr (line_m1 @ [CHR 0x0A])
   \<and> filter trim_nonempty (split (CHR 0x0A) (line_m1 @ [CHR 0x0A])) = [line_m1]
   \<and> (\<exists>r. langfuse (processConversationFile example_env (Monitor example_config default_options) example_path)
               = Some \<lparr> attempts = [Trace r], accepted = [Trace r] \<rparr>
            \<and> t_id r = VStr ''m1'' \<and> t_sessionId r = md5hex example_env ''a/b/c:conv1'' \<and> t_input r = ''hi'')
   \<and> langfuse (processConversationFile example_env
        (processConversationFile example_env (Monitor example_config default_options) example_path) example_path)
       = langfuse (processConversationFile example_env (Monitor example_config default_options) example_path)"
proof -
  have anchor: "''projects'' \<notin> set (split (CHR ''/'') ''/home/u/.claude'')"
    by simp
  have path: "example_path = ''/home/u/.claude'' @ ''/projects/a-b-c/conv1.jsonl''"
    by (simp add: example_path_def)
  have content: "readFileSync example_env example_path = Inr (line_m1 @ [CHR 0x0A])"
    by (simp add: example_env_def)
  have one: "filter trim_nonempty (split (CHR 0x0A) (line_m1 @ [CHR 0x0A])) = [line_m1]"
    by (simp add: line_m1_def trim_nonempty_def is_space_def)
  have parse: "\<forall>n. \<exists>entry. JSON_parse example_env n line_m1 = Some entry
                 \<and> user_entry entry ''m1'' ''hi'' ''2025-01-01T00:00:00.000Z''"
    by (simp add: example_env_def entry_m1_def user_entry_def extractText_def)
  have sink: "\<forall>h c. sink_rejects example_env h c = None"
    by (simp add: example_env_def)
  have live: "opt_dryRun default_options \<noteq> Some True"
    by (simp add: default_options_def)
  show ?thesis
    using end_to_end [OF anchor path content one parse sink live, of example_config] anchor content one
    by simp
qed

text \<open>
  C1 as stated, for every root, fails: \<^verbatim>\<open>pathParts.indexOf('projects')\<close> (line 159) finds
  the first segment \<^verbatim>\<open>projects\<close> of the path. For the root \<^verbatim>\<open>/home/projects/u/.claude\<close>
  that is the one below \<^verbatim>\<open>/home\<close>, the project is \<^verbatim>\<open>u\<close>, and the one trace handed to
  the sink has the digest of \<^verbatim>\<open>u:conv1\<close> as its session id, not that of
  \<^verbatim>\<open>a/b/c:conv1\<close>.
\<close>

theorem end_to_end_counterexample:
  "nested_path = ''/home/projects/u/.claude'' @ ''/projects/a-b-c/conv1.jsonl''
   \<and> readFileSync nested_env nested_path = Inr (line_m1 @ [CHR 0x0A])
   \<and> filter trim_nonempty (split (CHR 0x0A) (line_m1 @ [CHR 0x0A])) = [line_m1]
   \<and> JSON_parse nested_env 0 line_m1 = Some (entry_m1 0)
   \<and> user_entry (entry_m1 0) ''m1'' ''hi'' ''2025-01-01T00:00:00.000Z''
   \<and> langfuse (processConversationFile nested_env (Monitor example_config default_options) nested_path)
       = Some \<lparr> attempts = [Trace nested_trace], accepted = [Trace nested_trace] \<rparr>
   \<and> t_sessionId nested_trace = md5hex nested_env ''u:conv1''
   \<and> t_sessionId nested_trace \<noteq> md5hex nested_env ''a/b/c:conv1''"
  by (simp add: eval_defs processConversationFile_def resolveSession_def basename_def
      strip_trailing_slashes_def ends_with_def trim_nonempty_def is_space_def line_m1_def
      entry_m1_def user_entry_def nested_path_def nested_env_def nested_trace_def
      example_env_def default_options_def)

subsection \<open>C2: tool blocks\<close>

text \<open>
  C2 says that tool-invocation and tool-result content blocks are summarised into the
  extracted text. The code reads only \<^verbatim>\<open>message.text\<close>: for the entries of the
  repository's tests \<^verbatim>\<open>extracts tool_use content blocks\<close> and
  \<^verbatim>\<open>extracts tool_result content blocks\<close> the extracted text is empty, and the generation
  and the trace handed to the sink carry the empty string as output and input.
\<close>

theorem tool_blocks_dropped:
  "extractText tool_use_entry = VStr []
   \<and> extractText tool_result_entry = VStr []
   \<and> (\<exists>g. langfuse (snd (processMessage example_env (Monitor example_config default_options)
               tool_use_entry ''session-123'' ''/test/project'' ''conv-123''))
             = Some \<lparr> attempts = [Generation g], accepted = [Generation g] \<rparr> \<and> g_output g = [])
   \<and> (\<exists>r. langfuse (snd (processMessage example_env (Monitor example_config default_options)
               tool_result_entry ''session-123'' ''/test/project'' ''conv-123''))
             = Some \<lparr> attempts = [Trace r], accepted = [Trace r] \<rparr> \<and> t_input r = [])"
  by (simp add: eval_defs tool_use_entry_def tool_result_entry_def example_env_def default_options_def)

subsection \<open>C3: quiet mode\<close>

text \<open>
  C3 says that quiet mode suppresses the preview line. The constructor does not store the
  key \<^verbatim>\<open>quiet\<close> and \<^verbatim>\<open>processMessage\<close> prints unconditionally: the monitor of the
  repository's test \<^verbatim>\<open>suppresses per-message logging in quiet mode\<close>
  (\<^verbatim>\<open>{ quiet: true, dryRun: true }\<close>) prints the preview line of the test's entry.
\<close>

theorem quiet_not_read:
  "processMessage example_env (Monitor example_config quiet_dryRun_options) quiet_test_entry
      ''session-123'' ''/test/project'' ''conv-123''
   = (Returned,
      (Monitor example_config quiet_dryRun_options)
        \<lparr> processedMessages := [VStr ''quiet-test-uuid''],
          console := [LogPreview UserIcon ''project'' ''Test message''] \<rparr>)"
  by (simp add: eval_defs quiet_test_entry_def quiet_dryRun_options_def)

subsection \<open>C4: message counters\<close>

text \<open>
  C4 says that counters of user and assistant messages are kept. The monitor has no such
  field: after the two entries of the repository's test
  \<^verbatim>\<open>tracks message counts regardless of quiet mode\<close> the whole state is the constructor's
  with the two ids recorded and the two preview lines printed, and nothing else.
\<close>

theorem no_message_counters:
  "snd (processMessage example_env
          (snd (processMessage example_env (Monitor example_config quiet_dryRun_options) userEntry
                  ''session-123'' ''/test/project'' ''conv-123''))
          assistantEntry ''session-123'' ''/test/project'' ''conv-123'')
   = \<lparr> options = \<lparr> historyHours = 24, daemon = False, dryRun = True \<rparr>,
       processedMessages = [VStr ''user-msg'', VStr ''assistant-msg''],
       conversationSessions = Map.empty,
       config = example_config,
       langfuse = None,
       console = [LogPreview UserIcon ''project'' ''User message'',
                  LogPreview RobotIcon ''project'' ''Assistant message''],
       parses = 0 \<rparr>"
  by (simp add: eval_defs userEntry_def assistantEntry_def quiet_dryRun_options_def)

subsection \<open>C5: a lookback window of zero\<close>

text \<open>
  C5 says that a lookback window of zero skips the backfill. The constructor's
  \<^verbatim>\<open>options.historyHours || 24\<close> turns \<open>0\<close> into \<open>24\<close>, so the test
  \<^verbatim>\<open>historyHours > 0\<close> of \<^verbatim>\<open>start\<close> succeeds: with \<^verbatim>\<open>{ historyHours: 0 }\<close> the
  startup scans the last 24 hours and processes the example file before watching begins.
\<close>

theorem zero_hours_backfills:
  "historyHours (options (Monitor example_config zero_history_options)) = 24
   \<and> fst (start example_env (Monitor example_config zero_history_options)) = Returned
   \<and> console (snd (start example_env (Monitor example_config zero_history_options)))
     = [LogProjectsDir ''/home/u/.claude/projects'', LogProcessingLast 24, LogFound 1,
        LogPreview UserIcon ''c'' ''hi'', LogProcessed 1,
        LogWatching, LogLangfuseUI ''http://localhost:3001'', LogPressCtrlC]
   \<and> processedMessages (snd (start example_env (Monitor example_config zero_history_options)))
     = [VStr ''m1'']"
  by (simp add: eval_defs start_def processExistingHistory_def getClaudeProjectsDir_def
      processConversationFile_def resolveSession_def basename_def strip_trailing_slashes_def
      ends_with_def trim_nonempty_def is_space_def line_m1_def entry_m1_def
      example_env_def example_config_def example_path_def zero_history_options_def)

subsection \<open>C6: deduplication by id\<close>

text \<open>
  C6. For an entry that is an object (its kind can be read): without an id (a falsy
  \<^verbatim>\<open>uuid\<close>) the call returns with the state unchanged, the set of processed ids, the sink
  and the console included; with an id the set already holds, likewise; with a fresh id of
  a user or assistant entry, everything after the test runs on the state that already
  holds the id (extraction, printing and forwarding are \<open>echo_and_forward\<close>), and the id
  is in the set however the call ends. Handling the same entry a second time changes
  nothing, whatever the session, project and conversation given.
\<close>

theorem dedup_by_id:
  assumes kind: "getProp entry ''type'' = Inr msgType"
  shows "(falsy (propOf entry ''uuid'') \<longrightarrow> processMessage e m entry sid pp cid = (Returned, m))
       \<and> (Set_has (processedMessages m) (propOf entry ''uuid'')
            \<longrightarrow> processMessage e m entry sid pp cid = (Returned, m))
       \<and> ((msgType = VStr ''user'' \<or> msgType = VStr ''assistant'')
            \<and> truthy (propOf entry ''uuid'')
            \<and> \<not> Set_has (processedMessages m) (propOf entry ''uuid'')
            \<longrightarrow> processMessage e m entry sid pp cid
                  = echo_and_forward e
                      (m\<lparr>processedMessages := processedMessages m @ [propOf entry ''uuid'']\<rparr>)
                      entry msgType (propOf entry ''uuid'') sid pp cid
              \<and> Set_has (processedMessages (snd (processMessage e m entry sid pp cid)))
                    (propOf entry ''uuid''))
       \<and> snd (processMessage e' (snd (processMessage e m entry sid pp cid)) entry sid' pp' cid')
           = snd (processMessage e m entry sid pp cid)"
proof (intro conjI impI)
  assume "falsy (propOf entry ''uuid'')"
  then show "processMessage e m entry sid pp cid = (Returned, m)"
    using kind by (simp add: processMessage_def Let_def)
next
  assume "Set_has (processedMessages m) (propOf entry ''uuid'')"
  then show "processMessage e m entry sid pp cid = (Returned, m)"
    using kind by (simp add: processMessage_def Let_def)
next
  assume fresh: "(msgType = VStr ''user'' \<or> msgType = VStr ''assistant'')
      \<and> truthy (propOf entry ''uuid'') \<and> \<not> Set_has (processedMessages m) (propOf entry ''uuid'')"
  then show "processMessage e m entry sid pp cid
      = echo_and_forward e (m\<lparr>processedMessages := processedMessages m @ [propOf entry ''uuid'']\<rparr>)
          entry msgType (propOf entry ''uuid'') sid pp cid"
    by (intro processMessage_fresh [OF kind]) simp_all
  from fresh show "Set_has (processedMessages (snd (processMessage e m entry sid pp cid)))
      (propOf entry ''uuid'')"
    by (intro processMessage_marks [OF kind]) simp_all
next
  show "snd (processMessage e' (snd (processMessage e m entry sid pp cid)) entry sid' pp' cid')
      = snd (processMessage e m entry sid pp cid)"
    by (rule processMessage_twice)
qed

text \<open>The theorem at an entry without an id, at the example entry on a fresh monitor, and at
  a second parse of the example line.\<close>

theorem dedup_by_id_witness:
  "processMessage example_env (Monitor example_config default_options) entry_without_id
      ''session-123'' ''/test/project'' ''conv-123''
     = (Returned, Monitor example_config default_options)
   \<and> Set_has (processedMessages
        (snd (processMessage example_env (Monitor example_config default_options) (entry_m1 0)
                ''session-123'' ''/test/project'' ''conv-123''))) (VStr ''m1'')
   \<and> processMessage rejecting_env
        (snd (processMessage example_env (Monitor example_config default_options) (entry_m1 0)
                ''session-123'' ''/test/project'' ''conv-123''))
        (entry_m1 1) ''session-2'' ''/project2'' ''conv2''
     = (Returned, snd (processMessage example_env (Monitor example_config default_options) (entry_m1 0)
                ''session-123'' ''/test/project'' ''conv-123''))"
proof -
  let ?m0 = "Monitor example_config default_options"
  let ?m1 = "snd (processMessage example_env ?m0 (entry_m1 0) ''session-123'' ''/test/project'' ''conv-123'')"
  have k0: "getProp entry_without_id ''type'' = Inr (VStr ''user'')"
    by (simp add: entry_without_id_def)
  have f0: "falsy (propOf entry_without_id ''uuid'')"
    by (simp add: entry_without_id_def falsy_def)
  have k1: "getProp (entry_m1 n) ''type'' = Inr (VStr ''user'')" for n
    by (simp add: entry_m1_def)
  have u1: "propOf (entry_m1 n) ''uuid'' = VStr ''m1''" for n
    by (simp add: entry_m1_def)
  have fresh: "(VStr ''user'' = VStr ''user'' \<or> VStr ''user'' = VStr ''assistant'')
      \<and> truthy (propOf (entry_m1 0) ''uuid'')
      \<and> \<not> Set_has (processedMessages ?m0) (propOf (entry_m1 0) ''uuid'')"
    by (simp add: u1 Monitor_def Set_has_def Let_def)
  have a: "processMessage example_env ?m0 entry_without_id ''session-123'' ''/test/project'' ''conv-123''
      = (Returned, ?m0)"
    using dedup_by_id [OF k0, of example_env ?m0] f0 by blast
  have b: "Set_has (processedMessages ?m1) (VStr ''m1'')"
    using dedup_by_id [OF k1, of 0 example_env ?m0 "''session-123''" "''/test/project''" "''conv-123''"] fresh
    unfolding u1 by blast
  have c: "processMessage rejecting_env ?m1 (entry_m1 1) ''session-2'' ''/project2'' ''conv2''
      = (Returned, ?m1)"
    using dedup_by_id [OF k1, of 1 rejecting_env ?m1 "''session-2''" "''/project2''" "''conv2''"] b
    unfolding u1 by blast
  show ?thesis using a b c by simp
qed

subsection \<open>C7: session identity\<close>

text \<open>
  C7. The first resolution for a file path computes the MD5 hex digest (the environment's
  \<open>md5hex\<close>) of \<^verbatim>\<open>{projectPath}:{conversationId}\<close> and caches it by file path; a
  repeated resolution for the same path returns the same value and leaves the state as it
  is, whatever project and conversation are given; for a file in the expected layout
  \<^verbatim>\<open>processConversationFile\<close> caches the digest of the decoded project segment and the
  base name, and no later event of the watcher changes a cached value.
\<close>

theorem session_identity:
  "(conversationSessions m filepath = None \<longrightarrow>
      resolveSession e m filepath projectPath conversationId
        = (md5hex e (projectPath @ '':'' @ conversationId),
           m\<lparr>conversationSessions :=
               (conversationSessions m)(filepath \<mapsto> md5hex e (projectPath @ '':'' @ conversationId))\<rparr>))
   \<and> resolveSession e' (snd (resolveSession e m filepath projectPath conversationId)) filepath
         projectPath' conversationId'
       = (fst (resolveSession e m filepath projectPath conversationId),
          snd (resolveSession e m filepath projectPath conversationId))
   \<and> (indexOf (split (CHR ''/'') filepath) ''projects'' \<noteq> -1
        \<and> indexOf (split (CHR ''/'') filepath) ''projects'' < int (length (split (CHR ''/'') filepath)) - 2
        \<and> conversationSessions m filepath = None
      \<longrightarrow> conversationSessions (processConversationFile e m filepath) filepath
          = Some (md5hex e
              (replace_all (CHR ''-'') (CHR ''/'')
                 (split (CHR ''/'') filepath ! nat (indexOf (split (CHR ''/'') filepath) ''projects'' + 1))
               @ '':'' @ basename filepath ''.jsonl'')))
   \<and> (\<forall>s. conversationSessions m filepath = Some s \<longrightarrow>
          conversationSessions (watch e' m events) filepath = Some s)"
proof (intro conjI impI allI)
  assume "conversationSessions m filepath = None"
  then show "resolveSession e m filepath projectPath conversationId
      = (md5hex e (projectPath @ '':'' @ conversationId),
         m\<lparr>conversationSessions :=
             (conversationSessions m)(filepath \<mapsto> md5hex e (projectPath @ '':'' @ conversationId))\<rparr>)"
    by (simp add: resolveSession_def Let_def)
next
  show "resolveSession e' (snd (resolveSession e m filepath projectPath conversationId)) filepath
         projectPath' conversationId'
       = (fst (resolveSession e m filepath projectPath conversationId),
          snd (resolveSession e m filepath projectPath conversationId))"
    by (simp add: resolveSession_def Let_def split: option.splits)
next
  assume a: "indexOf (split (CHR ''/'') filepath) ''projects'' \<noteq> -1
        \<and> indexOf (split (CHR ''/'') filepath) ''projects'' < int (length (split (CHR ''/'') filepath)) - 2
        \<and> conversationSessions m filepath = None"
  then show "conversationSessions (processConversationFile e m filepath) filepath
          = Some (md5hex e
              (replace_all (CHR ''-'') (CHR ''/'')
                 (split (CHR ''/'') filepath ! nat (indexOf (split (CHR ''/'') filepath) ''projects'' + 1))
               @ '':'' @ basename filepath ''.jsonl''))"
    by (simp add: processConversationFile_resolves resolveSession_def Let_def)
next
  fix s
  assume "conversationSessions m filepath = Some s"
  then show "conversationSessions (watch e' m events) filepath = Some s"
    unfolding watch_def
    by (induction events arbitrary: m) (simp_all add: processConversationFile_cached)
qed

text \<open>The theorem at the example file, and after three more events.\<close>

theorem session_identity_witness:
  "conversationSessions (Monitor example_config default_options) example_path = None
   \<and> conversationSessions (processConversationFile example_env (Monitor example_config default_options) example_path)
        example_path = Some (md5hex example_env ''a/b/c:conv1'')
   \<and> conversationSessions
        (watch rejecting_env
           (processConversationFile example_env (Monitor example_config default_options) example_path)
           [example_path, ''/home/u/.claude/projects/x-y/conv1.jsonl'', example_path])
        example_path = Some (md5hex example_env ''a/b/c:conv1'')"
proof -
  let ?m0 = "Monitor example_config default_options"
  have none: "conversationSessions ?m0 example_path = None"
    by (simp add: Monitor_def Let_def)
  have parts: "split (CHR ''/'') example_path
      = ['''', ''home'', ''u'', ''.claude'', ''projects'', ''a-b-c'', ''conv1.jsonl'']"
    by (simp add: example_path_def)
  have idx: "indexOf (split (CHR ''/'') example_path) ''projects'' = 4"
    by (simp add: parts Let_def)
  have layout: "indexOf (split (CHR ''/'') example_path) ''projects'' \<noteq> -1
      \<and> indexOf (split (CHR ''/'') example_path) ''projects'' < int (length (split (CHR ''/'') example_path)) - 2
      \<and> conversationSessions ?m0 example_path = None"
    using none by (simp add: idx) (simp add: parts)
  have name: "replace_all (CHR ''-'') (CHR ''/'')
        (split (CHR ''/'') example_path ! nat (indexOf (split (CHR ''/'') example_path) ''projects'' + 1))
      @ '':'' @ basename example_path ''.jsonl'' = ''a/b/c:conv1''"
    unfolding idx by (simp add: parts replace_all_def basename_def strip_trailing_slashes_def ends_with_def
      example_path_def Let_def)
  have first: "conversationSessions (processConversationFile example_env ?m0 example_path) example_path
      = Some (md5hex example_env ''a/b/c:conv1'')"
    using session_identity [of ?m0 example_path example_env] layout name by simp
  have later: "conversationSessions
        (watch rejecting_env (processConversationFile example_env ?m0 example_path)
           [example_path, ''/home/u/.claude/projects/x-y/conv1.jsonl'', example_path])
        example_path = Some (md5hex example_env ''a/b/c:conv1'')"
    using session_identity [of "processConversationFile example_env ?m0 example_path" example_path] first
    by blast
  show ?thesis using none first later by simp
qed

subsection \<open>C8: forwarding errors\<close>

text \<open>
  C8. A user or assistant entry with a fresh id, parsed from a line of a file, whose
  record the sink rejects with an error: \<^verbatim>\<open>processMessage\<close> returns (the error is
  caught), the error is printed after the preview line, the sink has accepted nothing
  more, the id is in the set of processed ids, handling the entry again returns with the
  state unchanged whatever the sink would do then, and the loop over the lines goes on
  with the lines that follow.
\<close>

theorem forwarding_error_contained:
  assumes kind: "getProp entry ''type'' = Inr msgType"
      "msgType = VStr ''user'' \<or> msgType = VStr ''assistant''"
    and id: "truthy (propOf entry ''uuid'')" "\<not> Set_has (processedMessages m) (propOf entry ''uuid'')"
    and body: "extractText entry = VStr s"
    and ts: "\<not> toPrimitive_throws (timestampArg e entry)"
    and live: "\<not> dryRun (options m)" "langfuse m = Some c"
    and rejects: "\<forall>call. sink_rejects e (attempts c) call = Some msg"
    and line: "JSON_parse e (parses m0) l = Some entry" "m = m0\<lparr>parses := Suc (parses m0)\<rparr>"
    and m': "m' = snd (processMessage e m entry sid pp cid)"
  shows "processMessage e m entry sid pp cid = (Returned, m')
       \<and> (\<exists>line. console m' = console m @ [line, ErrCreatingTrace msg])
       \<and> (\<exists>c'. langfuse m' = Some c' \<and> accepted c' = accepted c)
       \<and> Set_has (processedMessages m') (propOf entry ''uuid'')
       \<and> processMessage e' m' entry sid' pp' cid' = (Returned, m')
       \<and> processLines e m0 (l # ls) sid pp cid = processLines e m' ls sid pp cid"
proof -
  let ?uuid = "propOf entry ''uuid''"
  let ?m1 = "m\<lparr>processedMessages := processedMessages m @ [?uuid]\<rparr>"
  have pm: "processMessage e m entry sid pp cid
      = echo_and_forward e ?m1 entry msgType ?uuid sid pp cid"
    using kind id by (rule processMessage_fresh)
  have fw: "\<exists>call. forward e mm entry msgType ?uuid s t sid pp cid
      = mm\<lparr>langfuse := Some (c\<lparr>attempts := attempts c @ [call]\<rparr>),
            console := console mm @ [ErrCreatingTrace msg]\<rparr>"
    if "langfuse mm = Some c" for mm t
    using that kind(2) rejects by (auto simp: forward_def sink_invoke_def Let_def)
  have "\<exists>line call. echo_and_forward e ?m1 entry msgType ?uuid sid pp cid
      = (Returned, ?m1\<lparr>console := console m @ [line],
                        langfuse := Some (c\<lparr>attempts := attempts c @ [call]\<rparr>),
                        console := console m @ [line, ErrCreatingTrace msg]\<rparr>)"
  proof -
    let ?line = "LogPreview (if msgType = VStr ''user'' then UserIcon else RobotIcon)
        (pop (split (CHR ''/'') pp)) (replace_all (CHR 0x0A) (CHR '' '') (substring0 60 s))"
    let ?m2 = "?m1\<lparr>console := console ?m1 @ [?line]\<rparr>"
    have "langfuse ?m2 = Some c" using live by simp
    from fw [OF this, of "Date (timestampArg e entry)"] obtain call where
      "forward e ?m2 entry msgType ?uuid s (Date (timestampArg e entry)) sid pp cid
        = ?m2\<lparr>langfuse := Some (c\<lparr>attempts := attempts c @ [call]\<rparr>),
               console := console ?m2 @ [ErrCreatingTrace msg]\<rparr>" by blast
    then have "echo_and_forward e ?m1 entry msgType ?uuid sid pp cid
      = (Returned, ?m1\<lparr>console := console m @ [?line],
                        langfuse := Some (c\<lparr>attempts := attempts c @ [call]\<rparr>),
                        console := console m @ [?line, ErrCreatingTrace msg]\<rparr>)"
      using body ts live by (simp add: echo_and_forward_def Let_def)
    then show ?thesis by blast
  qed
  then obtain line call where ef: "processMessage e m entry sid pp cid
      = (Returned, ?m1\<lparr>console := console m @ [line],
                        langfuse := Some (c\<lparr>attempts := attempts c @ [call]\<rparr>),
                        console := console m @ [line, ErrCreatingTrace msg]\<rparr>)"
    using pm by auto
  have m'_eq: "m' = ?m1\<lparr>console := console m @ [line],
                        langfuse := Some (c\<lparr>attempts := attempts c @ [call]\<rparr>),
                        console := console m @ [line, ErrCreatingTrace msg]\<rparr>"
    using m' ef by simp
  have has: "Set_has (processedMessages m') ?uuid"
    by (simp add: m'_eq Set_has_append Set_has_def sameValueZero_refl)
  have again: "processMessage e' m' entry sid' pp' cid' = (Returned, m')"
    using kind(1) has by (simp add: processMessage_def Let_def)
  have loop: "processLines e m0 (l # ls) sid pp cid = processLines e m' ls sid pp cid"
    using line m' by simp
  show ?thesis
    using ef m' has again loop by (auto simp: m'_eq)
qed

text \<open>The theorem at the example line with a sink that rejects every call.\<close>

theorem forwarding_error_contained_witness:
  "processMessage rejecting_env (Monitor example_config default_options\<lparr>parses := 1\<rparr>) (entry_m1 0)
       ''session-123'' ''/test/project'' ''conv-123''
     = (Returned, snd (processMessage rejecting_env (Monitor example_config default_options\<lparr>parses := 1\<rparr>)
         (entry_m1 0) ''session-123'' ''/test/project'' ''conv-123''))
   \<and> Set_has (processedMessages (snd (processMessage rejecting_env
         (Monitor example_config default_options\<lparr>parses := 1\<rparr>)
         (entry_m1 0) ''session-123'' ''/test/project'' ''conv-123''))) (VStr ''m1'')
   \<and> processMessage example_env
        (snd (processMessage rejecting_env (Monitor example_config default_options\<lparr>parses := 1\<rparr>)
           (entry_m1 0) ''session-123'' ''/test/project'' ''conv-123''))
        (entry_m1 0) ''session-123'' ''/test/project'' ''conv-123''
     = (Returned, snd (processMessage rejecting_env (Monitor example_config default_options\<lparr>parses := 1\<rparr>)
           (entry_m1 0) ''session-123'' ''/test/project'' ''conv-123''))
   \<and> processLines rejecting_env (Monitor example_config default_options) [line_m1, ''not json'']
        ''session-123'' ''/test/project'' ''conv-123''
     = processLines rejecting_env
        (snd (processMessage rejecting_env (Monitor example_config default_options\<lparr>parses := 1\<rparr>)
           (entry_m1 0) ''session-123'' ''/test/project'' ''conv-123''))
        [''not json''] ''session-123'' ''/test/project'' ''conv-123''"
proof -
  let ?m0 = "Monitor example_config default_options"
  let ?mp = "?m0\<lparr>parses := 1\<rparr>"
  have k: "getProp (entry_m1 0) ''type'' = Inr (VStr ''user'')"
    by (simp add: entry_m1_def)
  have t: "VStr ''user'' = VStr ''user'' \<or> VStr ''user'' = VStr ''assistant''"
    by simp
  have u: "propOf (entry_m1 0) ''uuid'' = VStr ''m1''"
    by (simp add: entry_m1_def)
  have i: "truthy (propOf (entry_m1 0) ''uuid'')"
    by (simp add: u)
  have f: "\<not> Set_has (processedMessages ?mp) (propOf (entry_m1 0) ''uuid'')"
    by (simp add: Monitor_def Set_has_def Let_def)
  have x: "extractText (entry_m1 0) = VStr ''hi''"
    by (simp add: entry_m1_def extractText_def)
  have d: "\<not> toPrimitive_throws (timestampArg rejecting_env (entry_m1 0))"
    by (simp add: entry_m1_def timestampArg_def)
  have l: "\<not> dryRun (options ?mp)" "langfuse ?mp = Some \<lparr> attempts = [], accepted = [] \<rparr>"
    by (simp_all add: Monitor_def default_options_def or_default_def Let_def)
  have r: "\<forall>call. sink_rejects rejecting_env (attempts \<lparr> attempts = [], accepted = [] \<rparr>) call
      = Some ''fetch failed''"
    by (simp add: rejecting_env_def)
  have p: "JSON_parse rejecting_env (parses ?m0) line_m1 = Some (entry_m1 0)"
      "?mp = ?m0\<lparr>parses := Suc (parses ?m0)\<rparr>"
    by (simp_all add: rejecting_env_def example_env_def Monitor_def Let_def)
  show ?thesis
    using forwarding_error_contained [OF k t i f x d l r p refl, of "''session-123''" "''/test/project''"
        "''conv-123''" example_env "''session-123''" "''/test/project''" "''conv-123''" "[''not json'']"]
    unfolding u by blast
qed

subsection \<open>C9: the preview line\<close>

text \<open>
  C9 says that the local echo never raises, whatever the text field holds. The code calls
  \<^verbatim>\<open>text.substring\<close> on the value of \<^verbatim>\<open>message.text\<close>: for a number the call throws a
  \<^verbatim>\<open>TypeError\<close>, after the id has been recorded and before anything is printed or
  forwarded.
\<close>

theorem echo_throws_on_number:
  "processMessage example_env (Monitor example_config default_options) numeric_text_entry
      ''session-123'' ''/test/project'' ''conv-123''
   = (Thrown (TypeError ''text.substring is not a function''),
      (Monitor example_config default_options)\<lparr> processedMessages := [VStr ''n1''] \<rparr>)"
  by (simp add: eval_defs numeric_text_entry_def default_options_def)

subsection \<open>C10: deduplication across files\<close>

text \<open>
  C10. Once a user or assistant entry with an id has been handled, under any session,
  project and conversation, an entry with the same id (\<^verbatim>\<open>SameValueZero\<close>, the equality of
  the set) is in the set of processed ids, also after any number of later watcher events,
  and handling it with any other session, project, conversation, payload or environment
  leaves the whole state unchanged: nothing is forwarded or printed.
\<close>

theorem dedup_global:
  assumes kind: "getProp entry1 ''type'' = Inr msgType"
      "msgType = VStr ''user'' \<or> msgType = VStr ''assistant''"
    and id1: "truthy (propOf entry1 ''uuid'')"
    and same: "sameValueZero (propOf entry2 ''uuid'') (propOf entry1 ''uuid'')"
    and m1: "m1 = snd (processMessage e m entry1 sid1 pp1 cid1)"
  shows "Set_has (processedMessages m1) (propOf entry2 ''uuid'')
       \<and> Set_has (processedMessages (watch e' m1 events)) (propOf entry2 ''uuid'')
       \<and> snd (processMessage e'' m1 entry2 sid2 pp2 cid2) = m1
       \<and> snd (processMessage e'' (watch e' m1 events) entry2 sid2 pp2 cid2) = watch e' m1 events"
proof -
  have "Set_has (processedMessages m1) (propOf entry1 ''uuid'')"
    unfolding m1 using kind id1 by (rule processMessage_marks)
  then have has: "Set_has (processedMessages m1) (propOf entry2 ''uuid'')"
    using same by (rule Set_has_cong [rotated])
  then have later: "Set_has (processedMessages (watch e' m1 events)) (propOf entry2 ''uuid'')"
    by (rule watch_processed_mono)
  show ?thesis
    using has later by (simp add: processMessage_dropped)
qed

text \<open>The theorem at two parses of the example line, handled as messages of two different
  files.\<close>

theorem dedup_global_witness:
  "sameValueZero (propOf (entry_m1 1) ''uuid'') (propOf (entry_m1 0) ''uuid'')
   \<and> snd (processMessage rejecting_env
        (snd (processMessage example_env (Monitor example_config default_options) (entry_m1 0)
                ''session-1'' ''/project1'' ''conv1''))
        (entry_m1 1) ''session-2'' ''/project2'' ''conv2'')
     = snd (processMessage example_env (Monitor example_config default_options) (entry_m1 0)
                ''session-1'' ''/project1'' ''conv1'')"
proof -
  have k: "getProp (entry_m1 0) ''type'' = Inr (VStr ''user'')"
    by (simp add: entry_m1_def)
  have t: "VStr ''user'' = VStr ''user'' \<or> VStr ''user'' = VStr ''assistant''"
    by simp
  have i: "truthy (propOf (entry_m1 0) ''uuid'')"
    by (simp add: entry_m1_def)
  have s: "sameValueZero (propOf (entry_m1 1) ''uuid'') (propOf (entry_m1 0) ''uuid'')"
    by (simp add: entry_m1_def)
  show ?thesis
    using dedup_global [OF k t i s refl, of example_env "Monitor example_config default_options"
        "''session-1''" "''/project1''" "''conv1''"] s
    by simp
qed

end
